theory Spec2Isabelle
  imports Complex_Main "HOL-Library.AList"
begin

section \<open>The ballot container (BallotContainer)\<close>

subsection \<open>Data\<close>

text \<open>
  The interfaces \<^verbatim>\<open>Candidate\<close> and \<^verbatim>\<open>Position\<close> of the component, field by field.
\<close>

record Candidate =
  cand_id :: string
  cand_name :: string
  cand_email :: string
  cand_photo :: "string option"
  cand_class :: string
  cand_stream :: string

record Position =
  pos_id :: string
  pos_title :: string
  pos_description :: string
  pos_candidates :: "Candidate list"

text \<open>
  A \<^verbatim>\<open>Record<string, T>\<close> is an association list with one entry per key, in insertion
  order: \<^verbatim>\<open>m[k]\<close> is \<^term>\<open>map_of m k\<close> (\<^term>\<open>None\<close> for \<^verbatim>\<open>undefined\<close>), the spread
  \<^verbatim>\<open>{ ...m, [k]: v }\<close> is \<^term>\<open>AList.update k v m\<close>, and \<^verbatim>\<open>Object.keys(m).length\<close> counts
  the distinct keys.
\<close>

type_synonym 'v js_record = "(string \<times> 'v) list"

definition object_keys :: "'v js_record \<Rightarrow> string list" where
  "object_keys m = remdups (map fst m)"

text \<open>
  Every render of the component creates its handlers anew, and a handler sees the state
  of the render that created it. What \<^verbatim>\<open>handleSelectCandidate\<close> and the callbacks it
  registers read is kept in a \<open>closure\<close>: \<^verbatim>\<open>currentPositionIndex\<close>, \<^verbatim>\<open>totalPositions\<close>,
  \<^verbatim>\<open>currentPosition.id\<close>, \<^verbatim>\<open>selections\<close> and \<^verbatim>\<open>locked\<close> of that render.
\<close>

record closure =
  cap_index :: nat
  cap_total :: nat
  cap_position :: string
  cap_selections :: "string js_record"
  cap_locked :: "bool js_record"

text \<open>
  The callbacks handed to \<^verbatim>\<open>setTimeout\<close>:
  \<^item> \<open>AutoAdvance\<close>: the 1500 ms callback of \<^verbatim>\<open>handleSelectCandidate\<close>;
  \<^item> \<open>ExitDone\<close>: the 400 ms callback of \<^verbatim>\<open>advanceToNext\<close>;
  \<^item> \<open>ReviewDone\<close>: the 800 ms callback, which calls \<^verbatim>\<open>handleFinalSubmit\<close> of the render
    that registered it;
  \<^item> \<open>Complete\<close>: the 2000 ms callback of \<^verbatim>\<open>handleFinalSubmit\<close>.
  A pending timer is the pair of its delay in milliseconds and its callback.
\<close>

datatype timer_callback =
    AutoAdvance closure
  | ExitDone
  | ReviewDone closure
  | Complete closure

text \<open>
  A call \<^verbatim>\<open>onVotePosition(currentPosition.id, candidateId)\<close> whose promise has not settled
  yet, with the closure of its \<^verbatim>\<open>.catch\<close> handler.
\<close>

datatype submission = Submission (sub_position: string) (sub_candidate: string) (sub_env: closure)

datatype exn = TypeError | SyntaxError

text \<open>
  The state of the component: its six \<^verbatim>\<open>useState\<close> cells, the timers and promises it has
  pending, and what it has done to the outside: the calls of \<^verbatim>\<open>onVotePosition\<close> and
  \<^verbatim>\<open>onVoteComplete\<close> (with their arguments), the \<^verbatim>\<open>alert\<close>s, the \<^verbatim>\<open>console.error\<close> lines
  and the session-storage item \<^verbatim>\<open>voteSubmitted\<close>. The confetti of \<^verbatim>\<open>createConfetti\<close> only
  touches the document and is left out.
\<close>

record bstate =
  currentPositionIndex :: nat
  selections :: "string js_record"
  locked :: "bool js_record"
  isExiting :: bool
  showReview :: bool
  showSuccess :: bool
  timers :: "(nat \<times> timer_callback) list"
  inflight :: "submission list"
  votePositionCalls :: "(string \<times> string) list"
  voteCompleteCalls :: "string js_record list"
  alerts :: "string list"
  consoleErrors :: "string list"
  voteSubmitted :: bool

definition initial :: bstate where
  "initial = \<lparr> currentPositionIndex = 0, selections = [], locked = [],
     isExiting = False, showReview = False, showSuccess = False,
     timers = [], inflight = [], votePositionCalls = [], voteCompleteCalls = [],
     alerts = [], consoleErrors = [], voteSubmitted = False \<rparr>"

subsection \<open>Handlers\<close>

definition capture :: "Position list \<Rightarrow> bstate \<Rightarrow> closure" where
  "capture positions s =
     \<lparr> cap_index = currentPositionIndex s,
       cap_total = length positions,
       cap_position = pos_id (positions ! currentPositionIndex s),
       cap_selections = selections s,
       cap_locked = locked s \<rparr>"

text \<open>
  \<^verbatim>\<open>handleSelectCandidate(candidateId)\<close>. \<^verbatim>\<open>currentPosition\<close> is
  \<^verbatim>\<open>positions[currentPositionIndex]\<close>, which is \<^verbatim>\<open>undefined\<close> out of range, and then
  \<^verbatim>\<open>currentPosition.id\<close> throws. A locked position returns at once. Otherwise the two
  maps are set, the vote is sent without waiting for it, and the 1500 ms timer is started.
\<close>

definition handleSelectCandidate :: "Position list \<Rightarrow> string \<Rightarrow> bstate \<Rightarrow> exn + bstate" where
  "handleSelectCandidate positions candidateId s =
     (if \<not> currentPositionIndex s < length positions then Inl TypeError
      else
        let env = capture positions s; p = cap_position env in
        if map_of (locked s) p = Some True then Inr s
        else Inr (s\<lparr> selections := AList.update p candidateId (selections s),
                      locked := AList.update p True (locked s),
                      votePositionCalls := votePositionCalls s @ [(p, candidateId)],
                      inflight := inflight s @ [Submission p candidateId env],
                      timers := timers s @ [(1500, AutoAdvance env)] \<rparr>))"

definition advanceToNext :: "bstate \<Rightarrow> bstate" where
  "advanceToNext s = s\<lparr> isExiting := True, timers := timers s @ [(400, ExitDone)] \<rparr>"

text \<open>
  \<^verbatim>\<open>handleFinalSubmit\<close> of the render \<open>env\<close>: the \<^verbatim>\<open>selections\<close> it later passes to
  \<^verbatim>\<open>onVoteComplete\<close> are those of that render.
\<close>

definition handleFinalSubmit :: "closure \<Rightarrow> bstate \<Rightarrow> bstate" where
  "handleFinalSubmit env s = s\<lparr> showSuccess := True, timers := timers s @ [(2000, Complete env)] \<rparr>"

fun run_callback :: "timer_callback \<Rightarrow> bstate \<Rightarrow> bstate" where
  "run_callback (AutoAdvance env) s =
     (if int (cap_index env) < int (cap_total env) - 1 then advanceToNext s
      else s\<lparr> timers := timers s @ [(800, ReviewDone env)] \<rparr>)"
| "run_callback ExitDone s =
     s\<lparr> currentPositionIndex := currentPositionIndex s + 1, isExiting := False \<rparr>"
| "run_callback (ReviewDone env) s = handleFinalSubmit env s"
| "run_callback (Complete env) s =
     s\<lparr> voteSubmitted := True, voteCompleteCalls := voteCompleteCalls s @ [cap_selections env] \<rparr>"

text \<open>
  The \<^verbatim>\<open>.catch\<close> handler of a submission: \<^verbatim>\<open>locked\<close> and \<^verbatim>\<open>selections\<close> in it are those of
  the render in which the candidate was selected. \<open>msg\<close> is \<^verbatim>\<open>error.message\<close>
  (\<^term>\<open>None\<close> when the rejection carries none; an empty message is falsy too).
\<close>

definition alert_text :: "string option \<Rightarrow> string" where
  "alert_text msg =
     ''Failed to record vote: ''
     @ (case msg of None \<Rightarrow> ''Unknown error'' | Some m \<Rightarrow> if m = [] then ''Unknown error'' else m)
     @ ''. Please try again.''"

definition on_rejected :: "submission \<Rightarrow> string option \<Rightarrow> bstate \<Rightarrow> bstate" where
  "on_rejected sub msg s =
     s\<lparr> consoleErrors := consoleErrors s @ [''Error voting:''],
        locked := AList.update (cap_position (sub_env sub)) False (cap_locked (sub_env sub)),
        selections := cap_selections (sub_env sub),
        alerts := alerts s @ [alert_text msg] \<rparr>"

subsection \<open>The event loop\<close>

text \<open>
  One turn of the single-threaded event loop: the user clicks a candidate of the position
  on screen, a pending timer fires, or a pending submission settles. The ballot of the
  current position is on screen when neither the success overlay nor the review is shown
  and \<^verbatim>\<open>currentPosition\<close> is defined. An event that cannot happen gives \<^term>\<open>None\<close>.
  \<open>Timer k\<close> fires the \<open>k\<close>-th pending timer and \<open>Reject k msg\<close> or \<open>Resolve k\<close>
  settles the \<open>k\<close>-th pending submission: the model lets them happen in any order,
  which includes the order of the timers' deadlines, and lets every click through to
  \<^verbatim>\<open>handleSelectCandidate\<close>, whose own guard decides.
\<close>

datatype event =
    Select string
  | Timer nat
  | Reject nat "string option"
  | Resolve nat

definition ballot_shown :: "Position list \<Rightarrow> bstate \<Rightarrow> bool" where
  "ballot_shown positions s \<longleftrightarrow>
     \<not> showSuccess s \<and> \<not> showReview s \<and> currentPositionIndex s < length positions"

definition remove_nth :: "nat \<Rightarrow> 'a list \<Rightarrow> 'a list" where
  "remove_nth k xs = take k xs @ drop (Suc k) xs"

fun step :: "Position list \<Rightarrow> event \<Rightarrow> bstate \<Rightarrow> bstate option" where
  "step positions (Select c) s =
     (if ballot_shown positions s
      then (case handleSelectCandidate positions c s of Inl e \<Rightarrow> None | Inr s' \<Rightarrow> Some s')
      else None)"
| "step positions (Timer k) s =
     (if k < length (timers s)
      then Some (run_callback (snd (timers s ! k)) (s\<lparr> timers := remove_nth k (timers s) \<rparr>))
      else None)"
| "step positions (Reject k msg) s =
     (if k < length (inflight s)
      then Some (on_rejected (inflight s ! k) msg (s\<lparr> inflight := remove_nth k (inflight s) \<rparr>))
      else None)"
| "step positions (Resolve k) s =
     (if k < length (inflight s)
      then Some (s\<lparr> inflight := remove_nth k (inflight s) \<rparr>)
      else None)"

fun run :: "Position list \<Rightarrow> event list \<Rightarrow> bstate \<Rightarrow> bstate option" where
  "run positions [] s = Some s"
| "run positions (e # es) s =
     (case step positions e s of None \<Rightarrow> None | Some s' \<Rightarrow> run positions es s')"

subsection \<open>Restoring the session\<close>

text \<open>
  What \<^verbatim>\<open>JSON.parse\<close> can return, as far as the restore effect looks at it. The effect
  reads the properties \<^verbatim>\<open>selections\<close> and \<^verbatim>\<open>locked\<close> of the parsed value. A property is
  \<^item> \<open>Nullish\<close>: missing or \<^verbatim>\<open>null\<close> (reading a property of it throws);
  \<^item> \<open>FalsyPrim\<close>: \<^verbatim>\<open>false\<close>, \<^verbatim>\<open>0\<close> or the empty string (falsy, but its properties
    read as \<^verbatim>\<open>undefined\<close> and it has no keys);
  \<^item> \<open>Rec m\<close>: an object of the type of the state cell.
  \<open>JNull\<close> is the parsed value \<^verbatim>\<open>null\<close>. A parsed boolean, number, string or array has
  neither property and behaves as \<open>JObject Nullish Nullish\<close>. Truthy property values
  that are not of the cell's type are outside the component's types and not modelled, and
  position identifiers are taken not to be names of members of \<^verbatim>\<open>Object.prototype\<close>.
\<close>

datatype 'v field = Nullish | FalsyPrim | Rec "'v js_record"

datatype data = JNull | JObject (d_selections: "string field") (d_locked: "bool field")

text \<open>\<^verbatim>\<open>f || {}\<close>\<close>

fun or_empty :: "'v field \<Rightarrow> 'v js_record" where
  "or_empty Nullish = []"
| "or_empty FalsyPrim = []"
| "or_empty (Rec m) = m"

text \<open>\<^verbatim>\<open>!data.selections[pos.id]\<close>: an empty candidate identifier is falsy as well.\<close>

fun unvoted :: "string field \<Rightarrow> Position \<Rightarrow> exn + bool" where
  "unvoted Nullish pos = Inl TypeError"
| "unvoted FalsyPrim pos = Inr True"
| "unvoted (Rec m) pos =
     Inr (case map_of m (pos_id pos) of None \<Rightarrow> True | Some v \<Rightarrow> v = [])"

text \<open>\<^verbatim>\<open>Object.keys(data.selections).length\<close>\<close>

fun keys_length :: "'v field \<Rightarrow> exn + nat" where
  "keys_length Nullish = Inl TypeError"
| "keys_length FalsyPrim = Inr 0"
| "keys_length (Rec m) = Inr (length (object_keys m))"

text \<open>
  \<^verbatim>\<open>Array.prototype.findIndex\<close> with a callback that may throw; \<^term>\<open>None\<close> is the
  result \<^verbatim>\<open>-1\<close>.
\<close>

fun findIndex :: "('a \<Rightarrow> exn + bool) \<Rightarrow> 'a list \<Rightarrow> exn + nat option" where
  "findIndex p [] = Inr None"
| "findIndex p (x # xs) =
     (case p x of
        Inl e \<Rightarrow> Inl e
      | Inr True \<Rightarrow> Inr (Some 0)
      | Inr False \<Rightarrow>
          (case findIndex p xs of
             Inl e \<Rightarrow> Inl e
           | Inr None \<Rightarrow> Inr None
           | Inr (Some i) \<Rightarrow> Inr (Some (Suc i))))"

text \<open>
  The body of the \<^verbatim>\<open>try\<close> block after \<^verbatim>\<open>JSON.parse\<close>: the state it leaves, and the
  exception it ends with, if any. State cells set before a throw stay set.
\<close>

definition restore_try :: "Position list \<Rightarrow> data \<Rightarrow> bstate \<Rightarrow> bstate \<times> exn option" where
  "restore_try positions d s =
     (case d of
        JNull \<Rightarrow> (s, Some TypeError)
      | JObject fsel flock \<Rightarrow>
          let s2 = s\<lparr> selections := or_empty fsel, locked := or_empty flock \<rparr> in
          (case findIndex (unvoted fsel) positions of
             Inl e \<Rightarrow> (s2, Some e)
           | Inr (Some unvotedIndex) \<Rightarrow> (s2\<lparr> currentPositionIndex := unvotedIndex \<rparr>, None)
           | Inr None \<Rightarrow>
               (case keys_length fsel of
                  Inl e \<Rightarrow> (s2, Some e)
                | Inr n \<Rightarrow>
                    if n = length positions then (s2\<lparr> showReview := True \<rparr>, None)
                    else (s2, None))))"

text \<open>
  The restore effect. \<open>savedData\<close> is what \<^verbatim>\<open>sessionStorage.getItem('ballotData')\<close>
  returns (\<^term>\<open>None\<close> for \<^verbatim>\<open>null\<close>; the empty string is falsy too), and \<open>parsed\<close> is
  what \<^verbatim>\<open>JSON.parse(savedData)\<close> gives, \<^term>\<open>None\<close> where it throws a \<^verbatim>\<open>SyntaxError\<close>.
  The \<^verbatim>\<open>catch\<close> block logs and goes on. The result is \<^term>\<open>Inl\<close> for an exception that
  leaves the effect.
\<close>

definition restore_failed :: "bstate \<Rightarrow> bstate" where
  "restore_failed s = s\<lparr> consoleErrors := consoleErrors s @ [''Failed to restore session:''] \<rparr>"

definition restoreSession ::
  "Position list \<Rightarrow> string option \<Rightarrow> data option \<Rightarrow> bstate \<Rightarrow> exn + bstate" where
  "restoreSession positions savedData parsed s =
     (case savedData of
        None \<Rightarrow> Inr s
      | Some raw \<Rightarrow>
          if raw = [] then Inr s
          else
            (case parsed of
               None \<Rightarrow> Inr (restore_failed s)
             | Some d \<Rightarrow>
                 (case restore_try positions d s of
                    (s', None) \<Rightarrow> Inr s'
                  | (s', Some e) \<Rightarrow> Inr (restore_failed s'))))"

section \<open>Submitting one vote (Vote.tsx)\<close>

text \<open>
  The part of the page's state that \<^verbatim>\<open>handleVotePosition\<close> reads: \<^verbatim>\<open>user?.id\<close>, the name in
  \<^verbatim>\<open>studentData\<close> (\<^term>\<open>None\<close> while it is \<^verbatim>\<open>null\<close>), the loaded positions,
  \<^verbatim>\<open>locationDenied\<close> and \<^verbatim>\<open>locationInfo\<close>, whose fields are \<^verbatim>\<open>number | null\<close>. The device,
  fingerprint and behaviour fields are copied into the row unread and are left out.
\<close>

record vote_page =
  user_id :: "string option"
  student_name :: "string option"
  vp_positions :: "Position list"
  locationDenied :: bool
  latitude :: "real option"
  longitude :: "real option"
  accuracy :: "real option"

record vote_row =
  voter_id :: string
  voter_name :: string
  candidate_id :: string
  candidate_name :: string
  position :: string
  vote_status :: string
  row_latitude :: "real option"
  row_longitude :: "real option"
  location_accuracy :: "real option"

text \<open>\<^verbatim>\<open>!x\<close> on a \<^verbatim>\<open>number | null\<close>: \<^verbatim>\<open>null\<close> and \<^verbatim>\<open>0\<close> are falsy.\<close>

definition js_not :: "real option \<Rightarrow> bool" where
  "js_not x = (case x of None \<Rightarrow> True | Some v \<Rightarrow> v = 0)"

definition voteStatus :: "vote_page \<Rightarrow> string" where
  "voteStatus pg =
     (if locationDenied pg \<or> (js_not (latitude pg) \<and> js_not (longitude pg))
      then ''invalid'' else ''valid'')"

text \<open>
  \<^verbatim>\<open>handleVotePosition(positionId, candidateId)\<close>: the message of the error it throws, or
  the row it has inserted. \<open>insert_error\<close> is the \<^verbatim>\<open>error.message\<close> of the insert
  (\<^term>\<open>None\<close> when the backend accepts the row).
\<close>

definition handleVotePosition ::
  "vote_page \<Rightarrow> string option \<Rightarrow> string \<Rightarrow> string \<Rightarrow> string + vote_row" where
  "handleVotePosition pg insert_error positionId candidateId =
     (case (user_id pg, student_name pg) of
        (Some uid, Some sname) \<Rightarrow>
          if uid = [] then Inl ''User not authenticated''
          else
            (case find (\<lambda>p. pos_id p = positionId) (vp_positions pg) of
               None \<Rightarrow> Inl ''Invalid position or candidate''
             | Some pos \<Rightarrow>
                 (case find (\<lambda>c. cand_id c = candidateId) (pos_candidates pos) of
                    None \<Rightarrow> Inl ''Invalid position or candidate''
                  | Some cand \<Rightarrow>
                      (case insert_error of
                         Some m \<Rightarrow> Inl (''Failed to record vote: '' @ m)
                       | None \<Rightarrow>
                           Inr \<lparr> voter_id = uid, voter_name = sname,
                                 candidate_id = candidateId, candidate_name = cand_name cand,
                                 position = pos_title pos, vote_status = voteStatus pg,
                                 row_latitude = latitude pg, row_longitude = longitude pg,
                                 location_accuracy = accuracy pg \<rparr>)))
      | _ \<Rightarrow> Inl ''User not authenticated'')"

section \<open>Auxiliary notions\<close>

text \<open>
  The invariant of the lock map, as far as the rollback needs it: every position that has
  a selection is locked.
\<close>

definition lock_invariant :: "string js_record \<Rightarrow> bool js_record \<Rightarrow> bool" where
  "lock_invariant sel lck \<longleftrightarrow> (\<forall>p \<in> set (map fst sel). map_of lck p = Some True)"

text \<open>
  The timers that will still move the index: an \<open>AutoAdvance\<close> registered at a position
  that is not the last one, and an \<open>ExitDone\<close>.
\<close>

fun advancing :: "timer_callback \<Rightarrow> bool" where
  "advancing (AutoAdvance env) \<longleftrightarrow> int (cap_index env) < int (cap_total env) - 1"
| "advancing ExitDone \<longleftrightarrow> True"
| "advancing (ReviewDone env) \<longleftrightarrow> False"
| "advancing (Complete env) \<longleftrightarrow> False"

definition pending_advances :: "bstate \<Rightarrow> nat" where
  "pending_advances s = length (filter advancing (map snd (timers s)))"

text \<open>
  A position lacks a selection in a restored selection map when the map has no entry for
  it, or an empty one.
\<close>

definition lacks_selection :: "string js_record \<Rightarrow> Position \<Rightarrow> bool" where
  "lacks_selection sel pos \<longleftrightarrow> map_of sel (pos_id pos) = None \<or> map_of sel (pos_id pos) = Some []"

text \<open>
  The position a pending submission was sent for is the position of the render that sent
  it.
\<close>

definition env_tagged :: "submission \<Rightarrow> bool" where
  "env_tagged sub \<longleftrightarrow> sub_position sub = cap_position (sub_env sub)"

text \<open>
  What makes a rollback leave its position without a selection: the closure of every
  pending submission satisfies the invariant of the lock map and was taken while its
  position was unlocked.
\<close>

definition env_ok :: "submission \<Rightarrow> bool" where
  "env_ok sub \<longleftrightarrow>
     sub_position sub = cap_position (sub_env sub) \<and>
     lock_invariant (cap_selections (sub_env sub)) (cap_locked (sub_env sub)) \<and>
     map_of (cap_locked (sub_env sub)) (cap_position (sub_env sub)) \<noteq> Some True"

definition consistent :: "bstate \<Rightarrow> bool" where
  "consistent s \<longleftrightarrow> lock_invariant (selections s) (locked s) \<and> list_all env_ok (inflight s)"

text \<open>
  An event is an accepted selection when it is a click on the ballot on screen whose
  position is not locked. \<open>advancing_selections\<close> counts, along a run, the accepted
  selections made at a position that is not the last one.
\<close>

definition accepts :: "Position list \<Rightarrow> event \<Rightarrow> bstate \<Rightarrow> bool" where
  "accepts positions e s =
     (case e of
        Select c \<Rightarrow> ballot_shown positions s \<and>
          map_of (locked s) (pos_id (positions ! currentPositionIndex s)) \<noteq> Some True
      | _ \<Rightarrow> False)"

fun advancing_selections :: "Position list \<Rightarrow> event list \<Rightarrow> bstate \<Rightarrow> nat" where
  "advancing_selections positions [] s = 0"
| "advancing_selections positions (e # es) s =
     (if accepts positions e s \<and> currentPositionIndex s + 1 < length positions then 1 else 0)
     + (case step positions e s of None \<Rightarrow> 0 | Some s' \<Rightarrow> advancing_selections positions es s')"

subsection \<open>Example ballots\<close>

definition mk_candidate :: "string \<Rightarrow> Candidate" where
  "mk_candidate i =
     \<lparr> cand_id = i, cand_name = i, cand_email = [], cand_photo = None,
       cand_class = [], cand_stream = [] \<rparr>"

definition mk_position :: "string \<Rightarrow> string list \<Rightarrow> Position" where
  "mk_position i cs =
     \<lparr> pos_id = i, pos_title = i, pos_description = [], pos_candidates = map mk_candidate cs \<rparr>"

definition ballot3 :: "Position list" where
  "ballot3 = [mk_position ''pos0'' [''A'', ''B''], mk_position ''pos1'' [''C'', ''D''],
              mk_position ''pos2'' [''E'', ''F'']]"

definition ballot2 :: "Position list" where
  "ballot2 = [mk_position ''pos0'' [''A'', ''B''], mk_position ''pos1'' [''C'', ''D'']]"

definition ballot1 :: "Position list" where
  "ballot1 = [mk_position ''pos0'' [''A'', ''B'']]"

text \<open>A signed-in voter whose device reports the coordinates 0, 0.\<close>

definition page_at_origin :: vote_page where
  "page_at_origin =
     \<lparr> user_id = Some ''student1'', student_name = Some ''Student One'',
       vp_positions = ballot3, locationDenied = False,
       latitude = Some 0, longitude = Some 0, accuracy = Some 25 \<rparr>"

section \<open>Evaluation of examples\<close>

lemmas ev = initial_def ballot1_def ballot2_def ballot3_def mk_position_def mk_candidate_def
  ballot_shown_def handleSelectCandidate_def capture_def Let_def remove_nth_def
  advanceToNext_def handleFinalSubmit_def on_rejected_def alert_text_def

section \<open>Selecting a candidate\<close>

text \<open>
  C4. An accepted selection (the position on screen is not locked) sets the selection of
  that position to the chosen candidate and its lock to true in the same call, issues
  exactly one call of \<^verbatim>\<open>onVotePosition\<close>, for that position and candidate, and leaves the
  promise of that call pending: nothing has waited for it.
\<close>

theorem select_accepted:
  assumes "currentPositionIndex s < length positions"
    and "map_of (locked s) (pos_id (positions ! currentPositionIndex s)) \<noteq> Some True"
  shows "\<exists>s'. handleSelectCandidate positions c s = Inr s' \<and>
           map_of (selections s') (pos_id (positions ! currentPositionIndex s)) = Some c \<and>
           map_of (locked s') (pos_id (positions ! currentPositionIndex s)) = Some True \<and>
           votePositionCalls s' =
             votePositionCalls s @ [(pos_id (positions ! currentPositionIndex s), c)] \<and>
           inflight s' =
             inflight s @
               [Submission (pos_id (positions ! currentPositionIndex s)) c (capture positions s)]"
  using assms
  by (simp add: handleSelectCandidate_def capture_def Let_def AList.update_conv')

text \<open>The first selection of a session on the ballot of three positions.\<close>

theorem select_accepted_witness:
  "currentPositionIndex initial < length ballot3 \<and>
   map_of (locked initial) (pos_id (ballot3 ! currentPositionIndex initial)) \<noteq> Some True \<and>
   handleSelectCandidate ballot3 ''A'' initial =
     Inr (initial\<lparr> selections := [(''pos0'', ''A'')], locked := [(''pos0'', True)],
            votePositionCalls := [(''pos0'', ''A'')],
            inflight := [Submission ''pos0'' ''A'' (capture ballot3 initial)],
            timers := [(1500, AutoAdvance (capture ballot3 initial))] \<rparr>)"
  using select_accepted [of initial ballot3 "''A''"]
  by (simp add: ev)

text \<open>
  C5. When the position on screen is already locked, \<^verbatim>\<open>handleSelectCandidate\<close> returns
  the state as it is: selections, locks and index are unchanged, and no submission call,
  timer or pending promise is added.
\<close>

theorem select_locked_noop:
  assumes "currentPositionIndex s < length positions"
    and "map_of (locked s) (pos_id (positions ! currentPositionIndex s)) = Some True"
  shows "handleSelectCandidate positions c s = Inr s"
  using assms by (simp add: handleSelectCandidate_def capture_def Let_def)

text \<open>A second click on the first position, before the ballot has moved on.\<close>

theorem select_locked_noop_witness:
  "map_option locked (run ballot3 [Select ''A''] initial) = Some [(''pos0'', True)] \<and>
   run ballot3 [Select ''A'', Select ''B''] initial = run ballot3 [Select ''A''] initial \<and>
   map_option votePositionCalls (run ballot3 [Select ''A'', Select ''B''] initial)
     = Some [(''pos0'', ''A'')]"
  using select_locked_noop [of "the (run ballot3 [Select ''A''] initial)" ballot3 "''B''"]
  by (simp add: ev)

section \<open>Completion\<close>

text \<open>
  C1, evaluated on the scenario of three positions: the user selects A, C and E, every
  submission succeeds and every timer fires. \<^verbatim>\<open>onVoteComplete\<close> is called once, but with
  the selections of the render in which E was clicked: the entry of the last position is
  missing from its argument, while the state holds all three.
\<close>

theorem complete_gets_stale_selections:
  "map_option selections
     (run ballot3 [Select ''A'', Resolve 0, Timer 0, Timer 0, Select ''C'', Resolve 0, Timer 0, Timer 0,
                   Select ''E'', Resolve 0, Timer 0, Timer 0, Timer 0] initial)
     = Some [(''pos0'', ''A''), (''pos1'', ''C''), (''pos2'', ''E'')] \<and>
   map_option voteCompleteCalls
     (run ballot3 [Select ''A'', Resolve 0, Timer 0, Timer 0, Select ''C'', Resolve 0, Timer 0, Timer 0,
                   Select ''E'', Resolve 0, Timer 0, Timer 0, Timer 0] initial)
     = Some [[(''pos0'', ''A''), (''pos1'', ''C'')]]"
  by (simp add: ev)

text \<open>
  C10. An accepted selection made while the index is the last one starts the 1500 ms
  timer, whose callback starts the 800 ms timer, whose callback shows the success overlay
  and starts the 2000 ms timer, whose callback marks the session submitted and calls
  \<^verbatim>\<open>onVoteComplete\<close>. Nothing on this path reads the selection map: it holds for every
  state at the last index, whatever selections it has.
\<close>

theorem last_selection_completes:
  assumes "ballot_shown positions s"
    and "currentPositionIndex s + 1 = length positions"
    and "map_of (locked s) (pos_id (positions ! currentPositionIndex s)) \<noteq> Some True"
  shows "map_option timers (run positions [Select c] s)
           = Some (timers s @ [(1500, AutoAdvance (capture positions s))]) \<and>
         map_option timers (run positions [Select c, Timer (length (timers s))] s)
           = Some (timers s @ [(800, ReviewDone (capture positions s))]) \<and>
         map_option timers
             (run positions [Select c, Timer (length (timers s)), Timer (length (timers s))] s)
           = Some (timers s @ [(2000, Complete (capture positions s))]) \<and>
         (\<exists>s'. run positions
             [Select c, Timer (length (timers s)), Timer (length (timers s)),
              Timer (length (timers s))] s = Some s' \<and>
           voteCompleteCalls s' = voteCompleteCalls s @ [selections s] \<and>
           voteSubmitted s' \<and> showSuccess s')"
  using assms
  by (simp add: ballot_shown_def handleSelectCandidate_def capture_def Let_def remove_nth_def
      handleFinalSubmit_def nth_append)

text \<open>
  Two positions: the vote for the first one fails after the ballot has moved on, its
  selection is rolled back and never made again; the selection for the last position
  still ends in one call of \<^verbatim>\<open>onVoteComplete\<close>, and the first position has no selection.
\<close>

theorem last_selection_completes_witness:
  "map_option selections
     (run ballot2 [Select ''A'', Timer 0, Timer 0, Reject 0 (Some ''network error'')] initial)
     = Some [] \<and>
   map_option currentPositionIndex
     (run ballot2 [Select ''A'', Timer 0, Timer 0, Reject 0 (Some ''network error'')] initial)
     = Some 1 \<and>
   map_option voteCompleteCalls
     (run ballot2 [Select ''A'', Timer 0, Timer 0, Reject 0 (Some ''network error''),
                   Select ''C'', Timer 0, Timer 0, Timer 0] initial) = Some [[]] \<and>
   map_option selections
     (run ballot2 [Select ''A'', Timer 0, Timer 0, Reject 0 (Some ''network error''),
                   Select ''C'', Timer 0, Timer 0, Timer 0] initial) = Some [(''pos1'', ''C'')]"
  using last_selection_completes
    [of ballot2
      "the (run ballot2 [Select ''A'', Timer 0, Timer 0, Reject 0 (Some ''network error'')] initial)"
      "''C''"]
  by (simp add: ev)

section \<open>Rollback after a failed submission\<close>

lemma lock_invariant_select:
  "lock_invariant sel lck \<Longrightarrow> lock_invariant (AList.update p c sel) (AList.update p True lck)"
  by (auto simp: lock_invariant_def AList.dom_update AList.update_conv')

lemma lock_invariant_absent:
  "lock_invariant sel lck \<Longrightarrow> map_of lck p \<noteq> Some True \<Longrightarrow> map_of sel p = None"
  by (auto simp: lock_invariant_def map_of_eq_None_iff)

lemma lock_invariant_rollback:
  assumes "lock_invariant sel lck" and "map_of lck p \<noteq> Some True"
  shows "lock_invariant sel (AList.update p False lck)"
  using assms by (auto simp: lock_invariant_def AList.update_conv')

lemma list_all_remove_nth: "list_all P xs \<Longrightarrow> list_all P (remove_nth k xs)"
  by (auto simp: remove_nth_def list_all_iff dest: in_set_takeD in_set_dropD)

lemma consistent_select:
  assumes "consistent s" and "handleSelectCandidate positions c s = Inr s'"
  shows "consistent s'"
  using assms
  by (auto simp: consistent_def handleSelectCandidate_def capture_def Let_def env_ok_def
      lock_invariant_select split: if_splits)

lemma consistent_callback: "consistent s \<Longrightarrow> consistent (run_callback cb s)"
  by (cases cb) (auto simp: consistent_def advanceToNext_def handleFinalSubmit_def)

lemma consistent_rejected:
  assumes "consistent s" and "env_ok sub"
  shows "consistent (on_rejected sub msg s)"
  using assms
  by (auto simp: consistent_def on_rejected_def env_ok_def lock_invariant_rollback)

lemma consistent_step:
  assumes "consistent s" and "step positions e s = Some s'"
  shows "consistent s'"
proof (cases e)
  case (Select c)
  with assms show ?thesis
    by (auto split: if_splits sum.splits intro: consistent_select)
next
  case (Timer k)
  have "consistent (s\<lparr>timers := remove_nth k (timers s)\<rparr>)"
    using assms(1) by (simp add: consistent_def)
  with assms Timer show ?thesis
    by (auto split: if_splits intro: consistent_callback)
next
  case (Reject k msg)
  show ?thesis
  proof (cases "k < length (inflight s)")
    case True
    have ok: "env_ok (inflight s ! k)"
      using assms(1) True by (simp add: consistent_def list_all_length)
    have "consistent (s\<lparr>inflight := remove_nth k (inflight s)\<rparr>)"
      using assms(1) by (simp add: consistent_def list_all_remove_nth)
    from consistent_rejected [OF this ok] assms(2) Reject True show ?thesis by auto
  next
    case False
    with assms Reject show ?thesis by simp
  qed
next
  case (Resolve k)
  with assms show ?thesis
    by (auto simp: consistent_def list_all_remove_nth split: if_splits)
qed

lemma consistent_run:
  "consistent s \<Longrightarrow> run positions es s = Some s' \<Longrightarrow> consistent s'"
proof (induction es arbitrary: s)
  case Nil
  then show ?case by simp
next
  case (Cons e es)
  then show ?case
    by (auto split: option.splits dest: consistent_step)
qed

lemma restore_try_inflight: "inflight (fst (restore_try positions d s)) = inflight s"
  by (simp add: restore_try_def Let_def split: data.splits sum.splits option.splits)

lemma restore_inflight:
  assumes "restoreSession positions savedData parsed s = Inr s'"
  shows "inflight s' = inflight s"
proof (cases "\<exists>raw d. savedData = Some raw \<and> raw \<noteq> [] \<and> parsed = Some d")
  case True
  then obtain raw d where sd: "savedData = Some raw" "raw \<noteq> []" "parsed = Some d"
    by blast
  obtain t x where r: "restore_try positions d s = (t, x)"
    by (cases "restore_try positions d s")
  have "inflight t = inflight s"
    using restore_try_inflight [of positions d s] r by simp
  with assms sd r show ?thesis
    by (cases x) (auto simp: restoreSession_def restore_failed_def)
next
  case False
  with assms show ?thesis
    by (auto simp: restoreSession_def restore_failed_def split: option.splits if_splits)
qed

lemma tagged_step:
  assumes "list_all env_tagged (inflight s)" and "step positions e s = Some s'"
  shows "list_all env_tagged (inflight s')"
proof (cases e)
  case (Select c)
  with assms show ?thesis
    by (auto simp: handleSelectCandidate_def capture_def Let_def env_tagged_def
        split: if_splits)
next
  case (Timer k)
  have "inflight (run_callback cb u) = inflight u" for cb u
    by (cases cb) (auto simp: advanceToNext_def handleFinalSubmit_def)
  with assms Timer show ?thesis
    by (auto split: if_splits)
next
  case (Reject k msg)
  with assms show ?thesis
    by (auto simp: on_rejected_def list_all_remove_nth split: if_splits)
next
  case (Resolve k)
  with assms show ?thesis
    by (auto simp: list_all_remove_nth split: if_splits)
qed

lemma tagged_run:
  "list_all env_tagged (inflight s) \<Longrightarrow> run positions es s = Some s' \<Longrightarrow>
     list_all env_tagged (inflight s')"
proof (induction es arbitrary: s)
  case Nil
  then show ?case by simp
next
  case (Cons e es)
  then show ?case
    by (auto split: option.splits dest: tagged_step)
qed

text \<open>
  C2, as the code has it. Take a session as the component starts it, mounted without a
  snapshot or with any restored one, and any run of clicks, timers and settled
  submissions, whatever state this has led to. The rejection of any pending submission
  sets the lock of its position to false and raises one alert, whose text carries the
  reason. It leaves that position without a selection when the maps the session started
  with satisfy the invariant of the lock map (every position that has a selection is
  locked; the empty maps of a fresh session do).
\<close>

theorem rollback_clears_position:
  assumes "restoreSession positions savedData parsed initial = Inr s0"
    and "run positions es s0 = Some s" and "k < length (inflight s)"
  shows "\<exists>s'. step positions (Reject k msg) s = Some s' \<and>
           map_of (locked s') (sub_position (inflight s ! k)) = Some False \<and>
           alerts s' = alerts s @ [alert_text msg] \<and>
           (lock_invariant (selections s0) (locked s0) \<longrightarrow>
              map_of (selections s') (sub_position (inflight s ! k)) = None)"
proof -
  let ?sub = "inflight s ! k"
  let ?s' = "on_rejected ?sub msg (s\<lparr> inflight := remove_nth k (inflight s) \<rparr>)"
  have start: "inflight s0 = []"
    using restore_inflight [OF assms(1)] by (simp add: initial_def)
  then have "list_all env_tagged (inflight s)"
    using tagged_run [OF _ assms(2)] by simp
  then have tag: "sub_position ?sub = cap_position (sub_env ?sub)"
    using assms(3) by (simp add: list_all_length env_tagged_def)
  have st: "step positions (Reject k msg) s = Some ?s'"
    using assms(3) by simp
  have lck: "map_of (locked ?s') (sub_position ?sub) = Some False"
    by (simp add: on_rejected_def tag AList.update_conv')
  have al: "alerts ?s' = alerts s @ [alert_text msg]"
    by (simp add: on_rejected_def)
  have sel: "map_of (selections ?s') (sub_position ?sub) = None"
    if inv: "lock_invariant (selections s0) (locked s0)"
  proof -
    have "consistent s0"
      using inv start by (simp add: consistent_def)
    then have "consistent s"
      using assms(2) by (rule consistent_run)
    then have "env_ok ?sub"
      using assms(3) by (simp add: consistent_def list_all_length)
    then have "map_of (cap_selections (sub_env ?sub)) (sub_position ?sub) = None"
      by (auto simp: env_ok_def intro: lock_invariant_absent)
    then show ?thesis
      by (simp add: on_rejected_def)
  qed
  from st lck al sel show ?thesis
    by blast
qed

text \<open>
  A fresh session of two positions: the vote for the first position is rejected with
  ``network error'' after the ballot has moved on and the second position is locked.
\<close>

theorem rollback_clears_position_witness:
  "restoreSession ballot2 None None initial = Inr initial \<and>
   lock_invariant (selections initial) (locked initial) \<and>
   map_option currentPositionIndex
     (run ballot2 [Select ''A'', Timer 0, Timer 0, Select ''C''] initial) = Some 1 \<and>
   map_of (the (map_option locked
     (run ballot2 [Select ''A'', Timer 0, Timer 0, Select ''C'', Reject 0 (Some ''network error'')]
        initial))) ''pos0'' = Some False \<and>
   map_of (the (map_option selections
     (run ballot2 [Select ''A'', Timer 0, Timer 0, Select ''C'', Reject 0 (Some ''network error'')]
        initial))) ''pos0'' = None \<and>
   map_option alerts
     (run ballot2 [Select ''A'', Timer 0, Timer 0, Select ''C'', Reject 0 (Some ''network error'')]
        initial)
     = Some [''Failed to record vote: network error. Please try again.'']"
  using rollback_clears_position [of ballot2 None None initial
      "[Select ''A'', Timer 0, Timer 0, Select ''C'']"
      "the (run ballot2 [Select ''A'', Timer 0, Timer 0, Select ''C''] initial)"
      0 "Some ''network error''"]
  by (simp add: ev lock_invariant_def restoreSession_def)

text \<open>
  The claim as the specification states it fails. The ballot has one position; the
  stored snapshot holds a selection for it and one for a position no longer on the ballot,
  and no locks. The restore effect leaves the first position on screen, selected and not
  locked. The user selects B, the submission is rejected, and the handler writes back the
  selections of the render in which B was clicked: the position has the selection A again.
\<close>

theorem rollback_keeps_restored_selection_counterexample:
  \<open>restoreSession ballot1 (Some ''{"selections":{"pos0":"A","pos9":"B"}}'')
     (Some (JObject (Rec [(''pos0'', ''A''), (''pos9'', ''B'')]) Nullish)) initial
     = Inr (initial\<lparr> selections := [(''pos0'', ''A''), (''pos9'', ''B'')] \<rparr>) \<and>
   map_option votePositionCalls
     (run ballot1 [Select ''B'']
        (initial\<lparr> selections := [(''pos0'', ''A''), (''pos9'', ''B'')] \<rparr>))
     = Some [(''pos0'', ''B'')] \<and>
   map_option locked
     (run ballot1 [Select ''B'', Reject 0 (Some ''network error'')]
        (initial\<lparr> selections := [(''pos0'', ''A''), (''pos9'', ''B'')] \<rparr>))
     = Some [(''pos0'', False)] \<and>
   map_of (the (map_option selections
     (run ballot1 [Select ''B'', Reject 0 (Some ''network error'')]
        (initial\<lparr> selections := [(''pos0'', ''A''), (''pos9'', ''B'')] \<rparr>)))) ''pos0''
     = Some ''A''\<close>
  by (simp add: restoreSession_def restore_try_def object_keys_def ev)

text \<open>
  C3, evaluated on the same run. Before the rejection both positions are selected and
  locked. The \<^verbatim>\<open>.catch\<close> handler writes back the maps of the render in which the first
  position was selected, so the selection and the lock of the second position are gone
  after it, although its own submission has not failed.
\<close>

theorem rollback_clobbers_later_position:
  "map_option selections
     (run ballot2 [Select ''A'', Timer 0, Timer 0, Select ''C''] initial)
     = Some [(''pos0'', ''A''), (''pos1'', ''C'')] \<and>
   map_option locked
     (run ballot2 [Select ''A'', Timer 0, Timer 0, Select ''C''] initial)
     = Some [(''pos0'', True), (''pos1'', True)] \<and>
   map_option selections
     (run ballot2 [Select ''A'', Timer 0, Timer 0, Select ''C'', Reject 0 (Some ''network error'')]
        initial)
     = Some [] \<and>
   map_option locked
     (run ballot2 [Select ''A'', Timer 0, Timer 0, Select ''C'', Reject 0 (Some ''network error'')]
        initial)
     = Some [(''pos0'', False)]"
  by (simp add: ev)

section \<open>Auto-advance\<close>

lemma filter_remove_nth:
  assumes "k < length xs"
  shows "length (filter P (remove_nth k xs)) + (if P (xs ! k) then 1 else 0) = length (filter P xs)"
proof -
  have "xs = take k xs @ xs ! k # drop (Suc k) xs"
    using assms by (rule id_take_nth_drop)
  then have "filter P xs = filter P (take k xs) @ filter P [xs ! k] @ filter P (drop (Suc k) xs)"
    by (metis append_Cons append_Nil filter_append)
  then show ?thesis
    by (simp add: remove_nth_def)
qed

lemma callback_index:
  "currentPositionIndex (run_callback cb s)
     = currentPositionIndex s + (if cb = ExitDone then 1 else 0)"
  by (cases cb) (auto simp: advanceToNext_def handleFinalSubmit_def)

lemma callback_pending:
  "currentPositionIndex (run_callback cb s) + pending_advances (run_callback cb s)
     = currentPositionIndex s + pending_advances s + (if advancing cb then 1 else 0)"
  by (cases cb) (auto simp: advanceToNext_def handleFinalSubmit_def pending_advances_def)

lemma step_index:
  assumes "step positions e s = Some s'"
  shows "currentPositionIndex s' = currentPositionIndex s \<or>
         currentPositionIndex s' = currentPositionIndex s + 1"
proof (cases e)
  case (Select c)
  with assms show ?thesis
    by (auto simp: handleSelectCandidate_def Let_def split: if_splits)
next
  case (Timer k)
  with assms show ?thesis
    by (auto simp: callback_index split: if_splits)
next
  case (Reject k msg)
  with assms show ?thesis
    by (auto simp: on_rejected_def split: if_splits)
next
  case (Resolve k)
  with assms show ?thesis
    by (auto split: if_splits)
qed

lemma step_pending:
  assumes "step positions e s = Some s'"
  shows "currentPositionIndex s' + pending_advances s'
         = currentPositionIndex s + pending_advances s
           + (if accepts positions e s \<and> currentPositionIndex s + 1 < length positions
              then 1 else 0)"
proof (cases e)
  case (Select c)
  with assms show ?thesis
    by (auto simp: handleSelectCandidate_def Let_def accepts_def capture_def pending_advances_def
        ballot_shown_def split: if_splits)
next
  case (Timer k)
  show ?thesis
  proof (cases "k < length (timers s)")
    case True
    let ?t = "s\<lparr>timers := remove_nth k (timers s)\<rparr>"
    have s': "s' = run_callback (snd (timers s ! k)) ?t"
      using assms Timer True by simp
    have "pending_advances ?t + (if advancing (snd (timers s ! k)) then 1 else 0)
            = pending_advances s"
      using filter_remove_nth [of k "map snd (timers s)" advancing] True
      by (simp add: pending_advances_def remove_nth_def take_map drop_map)
    then show ?thesis
      using callback_pending [of "snd (timers s ! k)" ?t] Timer
      by (simp add: s' accepts_def)
  next
    case False
    with assms Timer show ?thesis by simp
  qed
next
  case (Reject k msg)
  with assms show ?thesis
    by (auto simp: on_rejected_def accepts_def pending_advances_def split: if_splits)
next
  case (Resolve k)
  with assms show ?thesis
    by (auto simp: accepts_def pending_advances_def split: if_splits)
qed

lemma run_pending:
  "run positions es s = Some s' \<Longrightarrow>
     currentPositionIndex s \<le> currentPositionIndex s' \<and>
     currentPositionIndex s' + pending_advances s'
       = currentPositionIndex s + pending_advances s + advancing_selections positions es s"
proof (induction es arbitrary: s)
  case Nil
  then show ?case by simp
next
  case (Cons e es)
  then obtain t where t: "step positions e s = Some t" and r: "run positions es t = Some s'"
    by (auto split: option.splits)
  from Cons.IH [OF r] step_index [OF t] step_pending [OF t] t show ?case
    by auto
qed

text \<open>
  What holds of the index in every run. Every turn of the event loop leaves the position
  index as it is or increments it by exactly one. Over any run the index never decreases,
  and the increments made plus those still pending in timers are the increments pending at
  the start plus one for each accepted selection made at a position that is not the last,
  whether that selection is rolled back later or not.
\<close>

theorem advance_by_one:
  "(step positions e s = Some s' \<longrightarrow>
      currentPositionIndex s' = currentPositionIndex s \<or>
      currentPositionIndex s' = currentPositionIndex s + 1) \<and>
   (run positions es t = Some t' \<longrightarrow>
      currentPositionIndex t \<le> currentPositionIndex t' \<and>
      currentPositionIndex t' + pending_advances t'
        = currentPositionIndex t + pending_advances t + advancing_selections positions es t)"
  using step_index run_pending by blast

text \<open>One selection on the ballot of three positions and the two timers that follow it.\<close>

theorem advance_by_one_witness:
  "step ballot3 (Timer 0) (the (run ballot3 [Select ''A'', Timer 0] initial))
     = run ballot3 [Select ''A'', Timer 0, Timer 0] initial \<and>
   map_option currentPositionIndex (run ballot3 [Select ''A'', Timer 0] initial) = Some 0 \<and>
   map_option currentPositionIndex (run ballot3 [Select ''A'', Timer 0, Timer 0] initial) = Some 1 \<and>
   map_option pending_advances (run ballot3 [Select ''A'', Timer 0, Timer 0] initial) = Some 0 \<and>
   advancing_selections ballot3 [Select ''A'', Timer 0, Timer 0] initial = 1"
  using advance_by_one [of ballot3 "Timer 0" "the (run ballot3 [Select ''A'', Timer 0] initial)"
      "the (run ballot3 [Select ''A'', Timer 0, Timer 0] initial)"
      "[Select ''A'', Timer 0, Timer 0]" initial
      "the (run ballot3 [Select ''A'', Timer 0, Timer 0] initial)"]
  by (simp add: ev pending_advances_def accepts_def)

text \<open>
  C8, evaluated on a ballot of two positions. The user selects A for the first position,
  the submission is rejected and the position unlocked, and the user selects B for it.
  Both selections have started their 1500 ms timer, and each timer compares the index of
  its own render, 0, with the last index: both advance. The index goes from 0 to 1 and on
  to 2. The second position is passed without a selection, for one selection that stands
  the index has moved twice, and at index 2 no ballot is on screen.
\<close>

theorem reselect_advances_twice:
  "length ballot2 = 2 \<and>
   map_option currentPositionIndex
     (run ballot2 [Select ''A'', Reject 0 (Some ''network error''), Select ''B'',
                   Timer 0, Timer 1] initial) = Some 1 \<and>
   map_option currentPositionIndex
     (run ballot2 [Select ''A'', Reject 0 (Some ''network error''), Select ''B'',
                   Timer 0, Timer 1, Timer 0, Timer 0] initial) = Some 2 \<and>
   map_option selections
     (run ballot2 [Select ''A'', Reject 0 (Some ''network error''), Select ''B'',
                   Timer 0, Timer 1, Timer 0, Timer 0] initial) = Some [(''pos0'', ''B'')] \<and>
   map_option votePositionCalls
     (run ballot2 [Select ''A'', Reject 0 (Some ''network error''), Select ''B'',
                   Timer 0, Timer 1, Timer 0, Timer 0] initial)
     = Some [(''pos0'', ''A''), (''pos0'', ''B'')] \<and>
   map_option (ballot_shown ballot2)
     (run ballot2 [Select ''A'', Reject 0 (Some ''network error''), Select ''B'',
                   Timer 0, Timer 1, Timer 0, Timer 0] initial) = Some False \<and>
   map_option timers
     (run ballot2 [Select ''A'', Reject 0 (Some ''network error''), Select ''B'',
                   Timer 0, Timer 1, Timer 0, Timer 0] initial) = Some []"
  by (simp add: ev)

section \<open>Restoring a session\<close>

lemma findIndex_first:
  assumes "j < length xs" and "p (xs ! j) = Inr True" and "\<forall>i<j. p (xs ! i) = Inr False"
  shows "findIndex p xs = Inr (Some j)"
  using assms
proof (induction xs arbitrary: j)
  case Nil
  then show ?case by simp
next
  case (Cons x xs)
  show ?case
  proof (cases j)
    case 0
    with Cons.prems show ?thesis by simp
  next
    case (Suc j')
    have x: "p x = Inr False"
      using Cons.prems(3) Suc by (metis nth_Cons_0 zero_less_Suc)
    have "findIndex p xs = Inr (Some j')"
    proof (rule Cons.IH)
      show "j' < length xs" using Cons.prems(1) Suc by simp
      show "p (xs ! j') = Inr True" using Cons.prems(2) Suc by simp
      show "\<forall>i<j'. p (xs ! i) = Inr False"
        using Cons.prems(3) Suc by (metis Suc_mono nth_Cons_Suc)
    qed
    with x Suc show ?thesis by simp
  qed
qed

lemma findIndex_none: "\<forall>x\<in>set xs. p x = Inr False \<Longrightarrow> findIndex p xs = Inr None"
  by (induction xs) auto

lemma unvoted_Rec: "unvoted (Rec sel) pos = Inr (lacks_selection sel pos)"
  by (auto simp: lacks_selection_def split: option.splits)

text \<open>
  C6, as the code has it. For a stored snapshot that parses to an object with a selection
  map \<open>sel\<close>: both maps are restored; if some position lacks a selection, the index
  becomes that of the first such position; if every position has one and \<open>sel\<close> has
  exactly as many keys as there are positions, the review is shown; if every position has
  one and the number of keys differs, neither the index nor the review flag changes.
  With no stored snapshot the state is left as it is.
\<close>

theorem restore_resumes:
  assumes "savedData = Some raw" and "raw \<noteq> []" and "parsed = Some (JObject (Rec sel) flock)"
  shows
    "(\<forall>j. j < length positions \<and> lacks_selection sel (positions ! j) \<and>
          (\<forall>i<j. \<not> lacks_selection sel (positions ! i)) \<longrightarrow>
        restoreSession positions savedData parsed s =
          Inr (s\<lparr> selections := sel, locked := or_empty flock, currentPositionIndex := j \<rparr>)) \<and>
     ((\<forall>pos\<in>set positions. \<not> lacks_selection sel pos) \<and>
        length (object_keys sel) = length positions \<longrightarrow>
        restoreSession positions savedData parsed s =
          Inr (s\<lparr> selections := sel, locked := or_empty flock, showReview := True \<rparr>)) \<and>
     ((\<forall>pos\<in>set positions. \<not> lacks_selection sel pos) \<and>
        length (object_keys sel) \<noteq> length positions \<longrightarrow>
        restoreSession positions savedData parsed s =
          Inr (s\<lparr> selections := sel, locked := or_empty flock \<rparr>)) \<and>
     restoreSession positions None parsed0 s = Inr s"
proof (intro conjI allI impI)
  fix j
  assume j: "j < length positions \<and> lacks_selection sel (positions ! j) \<and>
    (\<forall>i<j. \<not> lacks_selection sel (positions ! i))"
  have "findIndex (unvoted (Rec sel)) positions = Inr (Some j)"
    using j by (intro findIndex_first) (simp_all add: unvoted_Rec del: unvoted.simps)
  then show "restoreSession positions savedData parsed s =
      Inr (s\<lparr> selections := sel, locked := or_empty flock, currentPositionIndex := j \<rparr>)"
    using assms by (simp add: restoreSession_def restore_try_def)
next
  assume a: "(\<forall>pos\<in>set positions. \<not> lacks_selection sel pos) \<and>
    length (object_keys sel) = length positions"
  have "findIndex (unvoted (Rec sel)) positions = Inr None"
    using a by (intro findIndex_none) (simp add: unvoted_Rec del: unvoted.simps)
  then show "restoreSession positions savedData parsed s =
      Inr (s\<lparr> selections := sel, locked := or_empty flock, showReview := True \<rparr>)"
    using assms a by (simp add: restoreSession_def restore_try_def)
next
  assume a: "(\<forall>pos\<in>set positions. \<not> lacks_selection sel pos) \<and>
    length (object_keys sel) \<noteq> length positions"
  have "findIndex (unvoted (Rec sel)) positions = Inr None"
    using a by (intro findIndex_none) (simp add: unvoted_Rec del: unvoted.simps)
  then show "restoreSession positions savedData parsed s =
      Inr (s\<lparr> selections := sel, locked := or_empty flock \<rparr>)"
    using assms a by (simp add: restoreSession_def restore_try_def)
next
  show "restoreSession positions None parsed0 s = Inr s"
    by (simp add: restoreSession_def)
qed

text \<open>
  A snapshot with selections for the first two positions: on the ballot of three
  positions the third is shown; on the ballot of two the review is shown; on the ballot of
  one position the snapshot has one key too many and the review is not shown.
\<close>

theorem restore_resumes_witness:
  \<open>map_sum id currentPositionIndex
     (restoreSession ballot3
        (Some ''{"selections":{"pos0":"A","pos1":"C"},"locked":{"pos0":true,"pos1":true}}'')
        (Some (JObject (Rec [(''pos0'', ''A''), (''pos1'', ''C'')])
                       (Rec [(''pos0'', True), (''pos1'', True)])))
        initial) = Inr 2 \<and>
   map_sum id showReview
     (restoreSession ballot3
        (Some ''{"selections":{"pos0":"A","pos1":"C"},"locked":{"pos0":true,"pos1":true}}'')
        (Some (JObject (Rec [(''pos0'', ''A''), (''pos1'', ''C'')])
                       (Rec [(''pos0'', True), (''pos1'', True)])))
        initial) = Inr False \<and>
   map_sum id showReview
     (restoreSession ballot2
        (Some ''{"selections":{"pos0":"A","pos1":"C"},"locked":{"pos0":true,"pos1":true}}'')
        (Some (JObject (Rec [(''pos0'', ''A''), (''pos1'', ''C'')])
                       (Rec [(''pos0'', True), (''pos1'', True)])))
        initial) = Inr True \<and>
   map_sum id showReview
     (restoreSession ballot1
        (Some ''{"selections":{"pos0":"A","pos1":"C"},"locked":{"pos0":true,"pos1":true}}'')
        (Some (JObject (Rec [(''pos0'', ''A''), (''pos1'', ''C'')])
                       (Rec [(''pos0'', True), (''pos1'', True)])))
        initial) = Inr False \<and>
   restoreSession ballot3 None None initial = Inr initial\<close>
  using
    restore_resumes
      [of \<open>Some ''{"selections":{"pos0":"A","pos1":"C"},"locked":{"pos0":true,"pos1":true}}''\<close>
        \<open>''{"selections":{"pos0":"A","pos1":"C"},"locked":{"pos0":true,"pos1":true}}''\<close>
        \<open>Some (JObject (Rec [(''pos0'', ''A''), (''pos1'', ''C'')])
                       (Rec [(''pos0'', True), (''pos1'', True)]))\<close>
        \<open>[(''pos0'', ''A''), (''pos1'', ''C'')]\<close> \<open>Rec [(''pos0'', True), (''pos1'', True)]\<close>
        ballot3 initial None]
  by (simp add: restoreSession_def restore_try_def lacks_selection_def object_keys_def ev)

text \<open>
  The claim as the specification states it fails: the ballot has one position, the
  snapshot holds a selection for it and one for a position that is no longer on the
  ballot. Every position has a selection, and the review is not shown: the ballot stays
  at the first position.
\<close>

theorem restore_extra_key_counterexample:
  \<open>lacks_selection [(''pos0'', ''A''), (''pos9'', ''B'')] (ballot1 ! 0) = False \<and>
   length ballot1 = 1 \<and>
   map_sum id showReview
     (restoreSession ballot1
        (Some ''{"selections":{"pos0":"A","pos9":"B"},"locked":{"pos0":true,"pos9":true}}'')
        (Some (JObject (Rec [(''pos0'', ''A''), (''pos9'', ''B'')])
                       (Rec [(''pos0'', True), (''pos9'', True)])))
        initial) = Inr False \<and>
   map_sum id currentPositionIndex
     (restoreSession ballot1
        (Some ''{"selections":{"pos0":"A","pos9":"B"},"locked":{"pos0":true,"pos9":true}}'')
        (Some (JObject (Rec [(''pos0'', ''A''), (''pos9'', ''B'')])
                       (Rec [(''pos0'', True), (''pos9'', True)])))
        initial) = Inr 0\<close>
  by (simp add: restoreSession_def restore_try_def lacks_selection_def object_keys_def ev)

text \<open>
  What holds of the restore effect for every stored item. Whatever the item is and
  whatever \<^verbatim>\<open>JSON.parse\<close> makes of it, no exception leaves the effect. When
  \<^verbatim>\<open>JSON.parse\<close> throws, or returns \<^verbatim>\<open>null\<close>, the effect logs one line and the state is
  otherwise the state it would have with no snapshot, namely unchanged.
\<close>

theorem restore_never_throws:
  "(\<exists>s'. restoreSession positions savedData parsed s = Inr s') \<and>
   (savedData = Some raw \<and> raw \<noteq> [] \<and> (parsed = None \<or> parsed = Some JNull) \<longrightarrow>
      restoreSession positions savedData parsed s =
        Inr (s\<lparr> consoleErrors := consoleErrors s @ [''Failed to restore session:''] \<rparr>)) \<and>
   restoreSession positions None parsed s = Inr s"
  by (auto simp: restoreSession_def restore_failed_def restore_try_def
      split: option.splits prod.splits)

text \<open>A snapshot cut off in the middle.\<close>

theorem restore_never_throws_witness:
  \<open>restoreSession ballot3 (Some ''{"selections":'') None initial =
     Inr (initial\<lparr> consoleErrors := [''Failed to restore session:''] \<rparr>) \<and>
   restoreSession ballot3 None None initial = Inr initial\<close>
  using restore_never_throws
    [of ballot3 \<open>Some ''{"selections":''\<close> None initial \<open>''{"selections":''\<close>]
  by (simp add: restoreSession_def restore_failed_def initial_def)

text \<open>
  C7, evaluated on a stored item that parses but is malformed: its \<^verbatim>\<open>selections\<close> are
  \<^verbatim>\<open>null\<close>. \<^verbatim>\<open>setSelections\<close> and \<^verbatim>\<open>setLocked\<close> have run when \<^verbatim>\<open>data.selections[pos.id]\<close>
  throws; the \<^verbatim>\<open>catch\<close> block logs the failure, and the restored locks stay. The session
  does not go on as it does with no snapshot: the second position is locked without a
  selection, a click on it does nothing, no vote is sent for it and no timer is left to
  move the ballot on.
\<close>

theorem restore_failure_keeps_locks:
  \<open>restoreSession ballot2 (Some ''{"selections":null,"locked":{"pos1":true}}'')
     (Some (JObject Nullish (Rec [(''pos1'', True)]))) initial
     = Inr (initial\<lparr> locked := [(''pos1'', True)],
                     consoleErrors := [''Failed to restore session:''] \<rparr>) \<and>
   restoreSession ballot2 None None initial = Inr initial \<and>
   map_option votePositionCalls
     (run ballot2 [Select ''A'', Timer 0, Timer 0, Select ''C'']
        (initial\<lparr> locked := [(''pos1'', True)],
                  consoleErrors := [''Failed to restore session:''] \<rparr>))
     = Some [(''pos0'', ''A'')] \<and>
   map_option timers
     (run ballot2 [Select ''A'', Timer 0, Timer 0, Select ''C'']
        (initial\<lparr> locked := [(''pos1'', True)],
                  consoleErrors := [''Failed to restore session:''] \<rparr>))
     = Some [] \<and>
   map_option votePositionCalls
     (run ballot2 [Select ''A'', Timer 0, Timer 0, Select ''C''] initial)
     = Some [(''pos0'', ''A''), (''pos1'', ''C'')]\<close>
  by (simp add: restoreSession_def restore_try_def restore_failed_def ev)

section \<open>The status of a vote\<close>

text \<open>
  C9, evaluated for a voter whose location access is granted and whose device reports
  latitude 0 and longitude 0: both coordinates are there, both are falsy, and the row is
  inserted with the status \<open>invalid\<close>.
\<close>

theorem origin_vote_invalid:
  "locationDenied page_at_origin = False \<and>
   latitude page_at_origin = Some 0 \<and> longitude page_at_origin = Some 0 \<and>
   map_sum id vote_status (handleVotePosition page_at_origin None ''pos0'' ''A'') = Inr ''invalid''"
  by (simp add: page_at_origin_def handleVotePosition_def voteStatus_def js_not_def ev)

end
